theory Spec2Isabelle
  imports Complex_Main "HOL-Library.Sublist"
begin

section \<open>JavaScript values, external calls and errors\<close>

text \<open>
  The installer in \<^verbatim>\<open>src/installers/helm.ts\<close> is a sequence of calls to external
  collaborators (child processes through execa, the cluster client, the file system) with
  a little decision logic in between. The embedding keeps every such call as a call to an
  oracle of the runtime, threads the state of the outside world through the calls, and
  records each call in a log, so that what the code invokes, in which order and with which
  arguments, can be stated.

  Values that come out of \<^verbatim>\<open>JSON.parse\<close> and flow into property reads and into the
  argument list of a child process are JavaScript values.
\<close>

datatype jsval =
    JUndefined
  | JNull
  | JBool bool
  | JNum rat
  | JStr string
  | JArr "jsval list"
  | JObj "(string \<times> jsval) list"

text \<open>
  A child process is started either as \<^verbatim>\<open>execa.shell(command, {timeout, reject})\<close> or as
  \<^verbatim>\<open>execa(file, args, {timeout, reject})\<close>; \<^verbatim>\<open>reject\<close> is true when the options
  leave it out.
\<close>

datatype invocation =
    Shell string nat bool
  | Execa string "jsval list" nat bool

fun reject :: "invocation \<Rightarrow> bool" where
  "reject (Shell c t r) = r"
| "reject (Execa f as t r) = r"

fun timeout :: "invocation \<Rightarrow> nat" where
  "timeout (Shell c t r) = t"
| "timeout (Execa f as t r) = t"

text \<open>
  How a child process ends: it exits with a code, it is killed by a signal (by execa's timer
  when the flag is set), or it cannot be spawned. The fields the source destructures from
  execa's result are functions of that outcome: \<^verbatim>\<open>code\<close> is the exit code, \<^verbatim>\<open>null\<close>
  for a killed process and the errno name for a spawn failure.
\<close>

datatype proc_outcome =
    Exited nat string string
  | Killed bool string string
  | SpawnFailed string string string

datatype js_code = CodeNum nat | CodeNull | CodeStr string

fun code :: "proc_outcome \<Rightarrow> js_code" where
  "code (Exited n out err) = CodeNum n"
| "code (Killed t out err) = CodeNull"
| "code (SpawnFailed e out err) = CodeStr e"

fun stdout :: "proc_outcome \<Rightarrow> string" where
  "stdout (Exited n out err) = out"
| "stdout (Killed t out err) = out"
| "stdout (SpawnFailed e out err) = out"

fun stderr :: "proc_outcome \<Rightarrow> string" where
  "stderr (Exited n out err) = err"
| "stderr (Killed t out err) = err"
| "stderr (SpawnFailed e out err) = err"

fun timedOut :: "proc_outcome \<Rightarrow> bool" where
  "timedOut (Exited n out err) = False"
| "timedOut (Killed t out err) = t"
| "timedOut (SpawnFailed e out err) = False"

definition failed :: "proc_outcome \<Rightarrow> bool" where
  "failed r = (code r \<noteq> CodeNum 0)"

datatype js_error =
    Error string
  | TypeError string
  | CLIError string
  | ExecaRejected invocation proc_outcome
  | External string

text \<open>Every interaction with the outside is logged under one of these labels.\<close>

datatype call =
    Spawn invocation
  | CommandExists string
  | SecretExist string
  | GetSecret string
  | ApiVersionExist string
  | ReadFile string
  | Mkdirp string
  | Ncp string string

datatype entry = File string | Dir

text \<open>
  The runtime: Node's \<^verbatim>\<open>path.join\<close> and \<^verbatim>\<open>JSON.parse\<close>, the comparison
  \<^verbatim>\<open>v > 0\<close> on operands that need a conversion to a number first, the child processes,
  \<^verbatim>\<open>command-exists\<close>, the three methods of \<^verbatim>\<open>KubeHelper\<close> that the installer
  calls, \<^verbatim>\<open>fs.readFileSync\<close>, \<^verbatim>\<open>mkdirp\<close> and \<^verbatim>\<open>ncp\<close>. None of them is defined in
  the installer, so all of them are parameters; \<open>'w\<close> is the state of the outside world
  (cluster, releases, disk) and \<open>entry_at\<close> is what the disk holds at a path.
  \<open>JSON_parse\<close> returns the rendering of the exception on the left; \<open>ncp\<close> returns the
  error it hands to its callback, if any.
\<close>

record 'w runtime =
  path_join :: "string \<Rightarrow> string \<Rightarrow> string"
  JSON_parse :: "string \<Rightarrow> string + jsval"
  coerce_gt0 :: "jsval \<Rightarrow> bool"
  spawn :: "'w \<Rightarrow> invocation \<Rightarrow> proc_outcome \<times> 'w"
  commandExists_sync :: "'w \<Rightarrow> string \<Rightarrow> bool"
  secretExist :: "'w \<Rightarrow> string \<Rightarrow> (js_error + bool) \<times> 'w"
  getSecret :: "'w \<Rightarrow> string \<Rightarrow> (js_error + string option) \<times> 'w"
  apiVersionExist :: "'w \<Rightarrow> string \<Rightarrow> (js_error + bool) \<times> 'w"
  readFileSync :: "'w \<Rightarrow> string \<Rightarrow> js_error + string"
  mkdirp :: "'w \<Rightarrow> string \<Rightarrow> (js_error + unit) \<times> 'w"
  ncp :: "'w \<Rightarrow> string \<Rightarrow> string \<Rightarrow> js_error option \<times> 'w"
  entry_at :: "'w \<Rightarrow> string \<Rightarrow> entry option"

text \<open>
  The state threaded through the installer: the outside world, the log of calls, the
  pipeline context object (Listr hands the same object to every task; the installer reads
  and writes the one key \<^verbatim>\<open>tlsEmail\<close>), and the exceptions thrown outside any awaited
  promise.
\<close>

record 'w state =
  world :: 'w
  calls :: "call list"
  ctx :: "string \<rightharpoonup> string"
  uncaught :: "js_error list"

type_synonym ('w, 'a) io = "'w state \<Rightarrow> (js_error + 'a) \<times> 'w state"

definition ret :: "'a \<Rightarrow> ('w, 'a) io" where
  "ret x s = (Inr x, s)"

definition throw :: "js_error \<Rightarrow> ('w, 'a) io" where
  "throw e s = (Inl e, s)"

definition andThen :: "('w, 'a) io \<Rightarrow> ('a \<Rightarrow> ('w, 'b) io) \<Rightarrow> ('w, 'b) io" where
  "andThen m f s = (case m s of (Inl e, s') \<Rightarrow> (Inl e, s') | (Inr x, s') \<Rightarrow> f x s')"

text \<open>
  \<^verbatim>\<open>await execa(...)\<close>: the process runs, the call is logged, and the promise rejects
  when the process failed and \<^verbatim>\<open>reject\<close> is not switched off; otherwise it resolves
  with the outcome.
\<close>

definition execa :: "'w runtime \<Rightarrow> invocation \<Rightarrow> ('w, proc_outcome) io" where
  "execa rt iv s =
     (let (r, w') = spawn rt (world s) iv;
          s' = s\<lparr>world := w', calls := calls s @ [Spawn iv]\<rparr>
      in if reject iv \<and> failed r then (Inl (ExecaRejected iv r), s') else (Inr r, s'))"

text \<open>Decimal rendering of a number inside a template literal.\<close>

fun show_nat :: "nat \<Rightarrow> string" where
  "show_nat n =
     (if n < 10 then [char_of (48 + n)] else show_nat (n div 10) @ [char_of (48 + n mod 10)])"

fun show_code :: "js_code \<Rightarrow> string" where
  "show_code (CodeNum n) = show_nat n"
| "show_code CodeNull = ''null''"
| "show_code (CodeStr e) = e"

section \<open>Idempotent resource provisioning\<close>

definition tillerRoleBindingExist :: "'w runtime \<Rightarrow> nat \<Rightarrow> ('w, bool) io" where
  "tillerRoleBindingExist rt execTimeout =
     andThen (execa rt (Execa ''kubectl''
                [JStr ''get'', JStr ''clusterrolebinding'', JStr ''add-on-cluster-admin'']
                execTimeout False))
       (\<lambda>r. if code r = CodeNum 0 then ret True else ret False)"

definition createTillerRoleBinding :: "'w runtime \<Rightarrow> nat \<Rightarrow> ('w, unit) io" where
  "createTillerRoleBinding rt execTimeout =
     andThen (execa rt (Execa ''kubectl''
                [JStr ''create'', JStr ''clusterrolebinding'', JStr ''add-on-cluster-admin'',
                 JStr ''--clusterrole=cluster-admin'', JStr ''--serviceaccount=kube-system:default'']
                execTimeout True))
       (\<lambda>r. ret ())"

definition tillerServiceAccountExist :: "'w runtime \<Rightarrow> nat \<Rightarrow> ('w, bool) io" where
  "tillerServiceAccountExist rt execTimeout =
     andThen (execa rt (Execa ''kubectl''
                [JStr ''get'', JStr ''serviceaccounts'', JStr ''tiller'',
                 JStr ''--namespace'', JStr ''kube-system'']
                execTimeout False))
       (\<lambda>r. if code r = CodeNum 0 then ret True else ret False)"

definition createTillerServiceAccount :: "'w runtime \<Rightarrow> nat \<Rightarrow> ('w, unit) io" where
  "createTillerServiceAccount rt execTimeout =
     andThen (execa rt (Execa ''kubectl''
                [JStr ''create'', JStr ''serviceaccount'', JStr ''tiller'',
                 JStr ''--namespace'', JStr ''kube-system'']
                execTimeout True))
       (\<lambda>r. ret ())"

definition tillerServiceExist :: "'w runtime \<Rightarrow> nat \<Rightarrow> ('w, bool) io" where
  "tillerServiceExist rt execTimeout =
     andThen (execa rt (Execa ''kubectl''
                [JStr ''get'', JStr ''services'', JStr ''tiller-deploy'',
                 JStr ''-n'', JStr ''kube-system'']
                execTimeout False))
       (\<lambda>r. if code r = CodeNum 0 then ret True else ret False)"

text \<open>
  \<^verbatim>\<open>helm init\<close> is run with \<^verbatim>\<open>reject: false\<close> and its result inspected by hand;
  \<^verbatim>\<open>cmd\<close> in execa's result is the file and its arguments joined by spaces.
\<close>

definition createTillerService :: "'w runtime \<Rightarrow> nat \<Rightarrow> ('w, unit) io" where
  \<open>createTillerService rt execTimeout =
     andThen (execa rt (Execa ''helm''
                [JStr ''init'', JStr ''--service-account'', JStr ''tiller'', JStr ''--wait'']
                execTimeout False))
       (\<lambda>r. if timedOut r then
               throw (Error (''Command "helm init --service-account tiller --wait" timed out after ''
                        @ show_nat execTimeout @ ''ms'' @ [CHR 0x0A]
                        @ ''stderr: '' @ stderr r @ [CHR 0x0A]
                        @ ''stdout: '' @ stdout r @ [CHR 0x0A]
                        @ ''error: E_TIMEOUT''))
             else if code r \<noteq> CodeNum 0 then
               throw (Error (''Command "helm init --service-account tiller --wait" failed with return code ''
                        @ show_code (code r) @ [CHR 0x0A]
                        @ ''stderr: '' @ stderr r @ [CHR 0x0A]
                        @ ''stdout: '' @ stdout r @ [CHR 0x0A]
                        @ ''error: E_COMMAND_FAILED''))
             else ret ())\<close>

text \<open>The installation configuration: the flags the installer reads.\<close>

record flags =
  tls :: bool
  multiuser :: bool
  templates :: string
  chenamespace :: string
  domain :: string
  cheimage :: string
  devfile_registry_url :: string
  plugin_registry_url :: string

definition createTillerRBAC :: "'w runtime \<Rightarrow> string \<Rightarrow> nat \<Rightarrow> ('w, unit) io" where
  \<open>createTillerRBAC rt templatesPath execTimeout s =
     (let yamlPath = path_join rt templatesPath ''/kubernetes/helm/che/tiller-rbac.yaml'';
          s' = s\<lparr>calls := calls s @ [ReadFile yamlPath]\<rparr>
      in case readFileSync rt (world s) yamlPath of
           Inl e \<Rightarrow> (Inl e, s')
         | Inr yamlContent \<Rightarrow>
             andThen (execa rt (Shell (''echo "'' @ yamlContent @ ''" | kubectl apply -f -'')
                        execTimeout True))
               (\<lambda>r. ret ()) s')\<close>

section \<open>Chart staging\<close>

text \<open>
  \<^verbatim>\<open>await mkdirp(destDir)\<close> is awaited as a promise. \<^verbatim>\<open>ncp(src, dest, {}, cb)\<close> is
  the callback form: the call returns at once with no promise, and the copy's error, if any,
  goes to the callback. What the callback throws is raised outside the awaiting function,
  so it lands among the uncaught exceptions and not in the function's result.
\<close>

definition mkdirp_call :: "'w runtime \<Rightarrow> string \<Rightarrow> ('w, unit) io" where
  "mkdirp_call rt dir s =
     (let (r, w') = mkdirp rt (world s) dir
      in (r, s\<lparr>world := w', calls := calls s @ [Mkdirp dir]\<rparr>))"

definition ncp_call ::
  "'w runtime \<Rightarrow> string \<Rightarrow> string \<Rightarrow> (js_error option \<Rightarrow> js_error option) \<Rightarrow> ('w, unit) io" where
  "ncp_call rt src dest callback s =
     (let (err, w') = ncp rt (world s) src dest
      in (Inr (), s\<lparr>world := w', calls := calls s @ [Ncp src dest],
                    uncaught := uncaught s @ (case callback err of None \<Rightarrow> [] | Some e \<Rightarrow> [e])\<rparr>))"

definition prepareCheHelmChart :: "'w runtime \<Rightarrow> flags \<Rightarrow> string \<Rightarrow> ('w, unit) io" where
  "prepareCheHelmChart rt f cacheDir =
     (let srcDir = path_join rt (templates f) ''/kubernetes/helm/che/'';
          destDir = path_join rt cacheDir ''/templates/kubernetes/helm/che/''
      in andThen (mkdirp_call rt destDir)
           (\<lambda>u. ncp_call rt srcDir destDir (\<lambda>err. case err of Some e \<Rightarrow> Some e | None \<Rightarrow> None)))"

definition updateCheHelmChartDependencies :: "'w runtime \<Rightarrow> string \<Rightarrow> nat \<Rightarrow> ('w, unit) io" where
  "updateCheHelmChartDependencies rt cacheDir execTimeout =
     (let destDir = path_join rt cacheDir ''/templates/kubernetes/helm/che/''
      in andThen (execa rt (Shell (''helm dependencies update --skip-refresh '' @ destDir)
                    execTimeout True))
           (\<lambda>r. ret ()))"

section \<open>Deployment and failure recovery\<close>

text \<open>
  The reads the recovery code makes on the parsed history: \<^verbatim>\<open>v[0]\<close>, \<^verbatim>\<open>v.revision\<close>,
  \<^verbatim>\<open>v.length\<close> and \<^verbatim>\<open>v > 0\<close>. A property read on \<^verbatim>\<open>undefined\<close> or \<^verbatim>\<open>null\<close>
  throws a TypeError; on any other value it yields the property or \<^verbatim>\<open>undefined\<close>.
\<close>

fun js_elem0 :: "jsval \<Rightarrow> js_error + jsval" where
  "js_elem0 JUndefined = Inl (TypeError ''Cannot read property '0' of undefined'')"
| "js_elem0 JNull = Inl (TypeError ''Cannot read property '0' of null'')"
| "js_elem0 (JArr xs) = Inr (case xs of [] \<Rightarrow> JUndefined | x # _ \<Rightarrow> x)"
| "js_elem0 (JStr s) = Inr (case s of [] \<Rightarrow> JUndefined | c # _ \<Rightarrow> JStr [c])"
| "js_elem0 (JObj fs) = Inr (case map_of fs ''0'' of None \<Rightarrow> JUndefined | Some x \<Rightarrow> x)"
| "js_elem0 (JBool b) = Inr JUndefined"
| "js_elem0 (JNum n) = Inr JUndefined"

fun js_revision :: "jsval \<Rightarrow> js_error + jsval" where
  "js_revision JUndefined = Inl (TypeError ''Cannot read property 'revision' of undefined'')"
| "js_revision JNull = Inl (TypeError ''Cannot read property 'revision' of null'')"
| "js_revision (JObj fs) = Inr (case map_of fs ''revision'' of None \<Rightarrow> JUndefined | Some x \<Rightarrow> x)"
| "js_revision (JArr xs) = Inr JUndefined"
| "js_revision (JStr s) = Inr JUndefined"
| "js_revision (JBool b) = Inr JUndefined"
| "js_revision (JNum n) = Inr JUndefined"

fun js_length :: "jsval \<Rightarrow> js_error + jsval" where
  "js_length JUndefined = Inl (TypeError ''Cannot read property 'length' of undefined'')"
| "js_length JNull = Inl (TypeError ''Cannot read property 'length' of null'')"
| "js_length (JArr xs) = Inr (JNum (of_nat (length xs)))"
| "js_length (JStr s) = Inr (JNum (of_nat (length s)))"
| "js_length (JObj fs) = Inr (case map_of fs ''length'' of None \<Rightarrow> JUndefined | Some x \<Rightarrow> x)"
| "js_length (JBool b) = Inr JUndefined"
| "js_length (JNum n) = Inr JUndefined"

definition js_gt0 :: "'w runtime \<Rightarrow> jsval \<Rightarrow> bool" where
  "js_gt0 rt v =
     (case v of JUndefined \<Rightarrow> False | JNull \<Rightarrow> False | JBool b \<Rightarrow> b | JNum r \<Rightarrow> 0 < r
      | _ \<Rightarrow> coerce_gt0 rt v)"

definition lift :: "js_error + 'a \<Rightarrow> ('w, 'a) io" where
  "lift r = (case r of Inl e \<Rightarrow> throw e | Inr x \<Rightarrow> ret x)"

text \<open>A template literal renders an absent value as the text \<^verbatim>\<open>undefined\<close>.\<close>

definition tpl :: "string option \<Rightarrow> string" where
  "tpl v = (case v of None \<Rightarrow> ''undefined'' | Some s \<Rightarrow> s)"

definition multiUserFlag :: "flags \<Rightarrow> string \<Rightarrow> string" where
  "multiUserFlag f destDir =
     (if multiuser f then ''-f '' @ destDir @ ''values/multi-user.yaml'' else [])"

definition tlsFlag :: "flags \<Rightarrow> string \<Rightarrow> string" where
  "tlsFlag f destDir = (if tls f then ''-f '' @ destDir @ ''values/tls.yaml'' else [])"

definition setOptions :: "(string \<rightharpoonup> string) \<Rightarrow> flags \<Rightarrow> string" where
  "setOptions c f =
     (if tls f then ''--set global.cheDomain='' @ domain f @ '' --set global.tls.email=''
                    @ [CHR 0x27] @ tpl (c ''tlsEmail'') @ [CHR 0x27]
      else [])"

definition upgradeCommand :: "(string \<rightharpoonup> string) \<Rightarrow> flags \<Rightarrow> string \<Rightarrow> string" where
  "upgradeCommand c f destDir =
     ''helm upgrade --install che --force --namespace '' @ chenamespace f
     @ '' --set global.ingressDomain='' @ domain f
     @ '' '' @ setOptions c f
     @ '' --set cheImage='' @ cheimage f
     @ '' --set global.cheWorkspacesNamespace='' @ chenamespace f
     @ '' --set che.workspace.devfileRegistryUrl='' @ devfile_registry_url f
     @ '' --set che.workspace.pluginRegistryUrl='' @ plugin_registry_url f
     @ '' '' @ multiUserFlag f destDir
     @ '' '' @ tlsFlag f destDir
     @ '' '' @ destDir"

definition historyCommand :: "flags \<Rightarrow> string" where
  "historyCommand f = ''helm history '' @ chenamespace f @ '' --output json''"

definition purgeHelmChart :: "'w runtime \<Rightarrow> string \<Rightarrow> nat \<Rightarrow> ('w, unit) io" where
  "purgeHelmChart rt name execTimeout =
     andThen (execa rt (Execa ''helm'' [JStr ''delete'', JStr name, JStr ''--purge'']
                execTimeout False))
       (\<lambda>r. ret ())"

definition rollback :: "'w runtime \<Rightarrow> flags \<Rightarrow> jsval \<Rightarrow> nat \<Rightarrow> ('w, unit) io" where
  "rollback rt f revision execTimeout =
     andThen (execa rt (Execa ''helm'' [JStr ''rollback'', JStr (chenamespace f), revision]
                execTimeout True))
       (\<lambda>r. ret ())"

text \<open>
  The body of \<^verbatim>\<open>if (code !== 0) { ... }\<close> in \<^verbatim>\<open>upgradeCheHelmChart\<close>: \<open>command\<close> and
  \<open>stderr1\<close> are the command line and the standard error of the first attempt.
\<close>

definition recover :: "'w runtime \<Rightarrow> flags \<Rightarrow> string \<Rightarrow> string \<Rightarrow> nat \<Rightarrow> ('w, unit) io" where
  "recover rt f command stderr1 execTimeout =
     andThen (execa rt (Shell (historyCommand f) execTimeout False))
       (\<lambda>h. if code h \<noteq> CodeNum 0 then
               throw (Error (''Unable to execute helm command '' @ command @ '' / '' @ stderr1))
             else
               (case JSON_parse rt (stdout h) of
                  Inl err \<Rightarrow> throw (Error (''Unable to grab helm history:'' @ err))
                | Inr jsonOutput \<Rightarrow>
                    andThen (lift (js_elem0 jsonOutput)) (\<lambda>first.
                    andThen (lift (js_revision first)) (\<lambda>revision.
                    andThen (lift (js_length jsonOutput)) (\<lambda>len.
                    andThen (if js_gt0 rt len \<and> revision = JStr ''1''
                             then purgeHelmChart rt (chenamespace f) 30000
                             else rollback rt f revision execTimeout) (\<lambda>u.
                    andThen (execa rt (Shell command execTimeout True)) (\<lambda>r. ret ())))))))"

definition upgradeCheHelmChart :: "'w runtime \<Rightarrow> flags \<Rightarrow> string \<Rightarrow> nat \<Rightarrow> ('w, unit) io" where
  "upgradeCheHelmChart rt f cacheDir execTimeout s =
     (let destDir = path_join rt cacheDir ''/templates/kubernetes/helm/che/'';
          command = upgradeCommand (ctx s) f destDir
      in andThen (execa rt (Shell command execTimeout False))
           (\<lambda>r. if code r \<noteq> CodeNum 0 then recover rt f command (stderr r) execTimeout
                 else ret ()) s)"

section \<open>The task pipeline\<close>

text \<open>
  The calls into \<^verbatim>\<open>KubeHelper\<close>, logged, and the one assignment to the context,
  \<^verbatim>\<open>ctx.tlsEmail = tlsEmail\<close>.
\<close>

definition kh_secretExist :: "'w runtime \<Rightarrow> string \<Rightarrow> ('w, bool) io" where
  "kh_secretExist rt name s =
     (let (r, w') = secretExist rt (world s) name
      in (r, s\<lparr>world := w', calls := calls s @ [SecretExist name]\<rparr>))"

definition kh_getSecret :: "'w runtime \<Rightarrow> string \<Rightarrow> ('w, string option) io" where
  "kh_getSecret rt name s =
     (let (r, w') = getSecret rt (world s) name
      in (r, s\<lparr>world := w', calls := calls s @ [GetSecret name]\<rparr>))"

definition kh_apiVersionExist :: "'w runtime \<Rightarrow> string \<Rightarrow> ('w, bool) io" where
  "kh_apiVersionExist rt name s =
     (let (r, w') = apiVersionExist rt (world s) name
      in (r, s\<lparr>world := w', calls := calls s @ [ApiVersionExist name]\<rparr>))"

definition set_ctx :: "string \<Rightarrow> string \<Rightarrow> ('w, unit) io" where
  "set_ctx k v s = (Inr (), s\<lparr>ctx := (ctx s)(k \<mapsto> v)\<rparr>)"

definition helmInstalledTask :: "'w runtime \<Rightarrow> ('w, unit) io" where
  "helmInstalledTask rt s =
     (let s' = s\<lparr>calls := calls s @ [CommandExists ''helm'']\<rparr>
      in if \<not> commandExists_sync rt (world s) ''helm''
         then (Inl (CLIError ''E_REQUISITE_NOT_FOUND''), s')
         else (Inr (), s'))"

definition tlsSecretTask :: "'w runtime \<Rightarrow> ('w, unit) io" where
  "tlsSecretTask rt =
     andThen (kh_secretExist rt ''che-tls'')
       (\<lambda>exists. if \<not> exists then
            throw (Error (''TLS option is enabled but che-tls secret does not exist in default namespace. ''
              @ ''Example on how to create the secret: kubectl create secret generic che-tls ''
              @ ''--from-literal=ACME_EMAIL=my@email-address.com''))
          else
            andThen (kh_getSecret rt ''che-tls'')
              (\<lambda>tlsEmail. case tlsEmail of
                   None \<Rightarrow>
                     throw (Error (''TLS option is enabled and che-tls secret is defined but there is ''
                       @ ''no ACME_EMAIL field on this secret. ''
                       @ ''Example on how to create the secret: kubectl create secret generic che-tls ''
                       @ ''--from-literal=ACME_EMAIL=my@email-address.com''))
                 | Some e \<Rightarrow> set_ctx ''tlsEmail'' e))"

definition certManagerTask :: "'w runtime \<Rightarrow> ('w, unit) io" where
  "certManagerTask rt =
     andThen (kh_apiVersionExist rt ''certmanager.k8s.io'')
       (\<lambda>exists. if \<not> exists then
            throw (Error (''TLS option is enabled but cert-manager API has not been found. ''
              @ ''Cert Manager is probably not installed. Example on how to install it:'' @ [CHR 0x0A]
              @ ''            $ kubectl create namespace cert-manager'' @ [CHR 0x0A]
              @ ''            $ kubectl label namespace cert-manager certmanager.k8s.io/disable-validation=true''
              @ [CHR 0x0A]
              @ ''            $ kubectl apply -f https://github.com/jetstack/cert-manager/releases/download/v0.8.1/cert-manager.yaml --validate=false''
              @ [CHR 0x0A, CHR 0x0A]
              @ ''            Please install cert-manager.''))
          else ret ())"

definition roleBindingTask :: "'w runtime \<Rightarrow> ('w, unit) io" where
  "roleBindingTask rt =
     andThen (tillerRoleBindingExist rt 30000)
       (\<lambda>roleBindingExist. if roleBindingExist then ret () else createTillerRoleBinding rt 30000)"

definition serviceAccountTask :: "'w runtime \<Rightarrow> ('w, unit) io" where
  "serviceAccountTask rt =
     andThen (tillerServiceAccountExist rt 30000)
       (\<lambda>accountExist. if accountExist then ret () else createTillerServiceAccount rt 120000)"

definition tillerServiceTask :: "'w runtime \<Rightarrow> ('w, unit) io" where
  "tillerServiceTask rt =
     andThen (tillerServiceExist rt 30000)
       (\<lambda>serviceExist. if serviceExist then ret () else createTillerService rt 120000)"

text \<open>
  A Listr task: its title, whether it is enabled, and its body. Listr runs the enabled
  tasks in the order of the list, each on the shared context, and stops at the first one
  that fails. The titles' status suffixes only feed the renderer and are left out.
\<close>

record 'w listr_task =
  title :: string
  enabled :: bool
  task :: "('w, unit) io"

fun listr_run :: "'w listr_task list \<Rightarrow> ('w, unit) io" where
  "listr_run [] s = (Inr (), s)"
| "listr_run (t # ts) s =
     (if enabled t then
        (case task t s of
           (Inl e, s') \<Rightarrow> (Inl e, s')
         | (Inr u, s') \<Rightarrow> listr_run ts s')
      else listr_run ts s)"

definition startTasks :: "'w runtime \<Rightarrow> flags \<Rightarrow> string \<Rightarrow> 'w listr_task list" where
  "startTasks rt f cacheDir =
     [\<lparr>title = ''Verify if helm is installed'', enabled = True, task = helmInstalledTask rt\<rparr>,
      \<lparr>title = ''Check for TLS secret prerequisites'', enabled = tls f, task = tlsSecretTask rt\<rparr>,
      \<lparr>title = ''Check for cert-manager'', enabled = tls f, task = certManagerTask rt\<rparr>,
      \<lparr>title = ''Create Tiller Role Binding'', enabled = True, task = roleBindingTask rt\<rparr>,
      \<lparr>title = ''Create Tiller Service Account'', enabled = True, task = serviceAccountTask rt\<rparr>,
      \<lparr>title = ''Create Tiller RBAC'', enabled = True,
        task = createTillerRBAC rt (templates f) 30000\<rparr>,
      \<lparr>title = ''Create Tiller Service'', enabled = True, task = tillerServiceTask rt\<rparr>,
      \<lparr>title = ''Preparing Che Helm Chart'', enabled = True,
        task = prepareCheHelmChart rt f cacheDir\<rparr>,
      \<lparr>title = ''Updating Helm Chart dependencies'', enabled = True,
        task = updateCheHelmChartDependencies rt cacheDir 120000\<rparr>,
      \<lparr>title = ''Deploying Che Helm Chart'', enabled = True,
        task = upgradeCheHelmChart rt f cacheDir 120000\<rparr>]"


section \<open>Contracts of the collaborators on the disk\<close>




text \<open>
  A step keeps the pipeline context when the context after it is the context before it,
  whatever its result; it extends the log when it only appends calls; it writes at most the contact email when the context after it is
  the one before it, possibly with the key \<^verbatim>\<open>tlsEmail\<close> set.
\<close>

definition keeps_ctx :: "('w, 'a) io \<Rightarrow> bool" where
  "keeps_ctx m = (\<forall>s. ctx (snd (m s)) = ctx s)"


definition writes_at_most_tlsEmail :: "('w, 'a) io \<Rightarrow> bool" where
  "writes_at_most_tlsEmail m =
     (\<forall>s. ctx (snd (m s)) = ctx s \<or> (\<exists>e. ctx (snd (m s)) = (ctx s)(''tlsEmail'' \<mapsto> e)))"




section \<open>A simulated runtime\<close>

text \<open>
  One concrete runtime, to run the installer on: child processes end as a script says (and
  exit 0 once the script is used up), the disk is an association list, and
  \<^verbatim>\<open>helm dependencies update\<close> writes a lock file into the chart directory it is given.
  \<open>sim_join\<close> is \<^verbatim>\<open>path.join\<close> on two normalised paths, \<open>sim_parse\<close> is
  \<^verbatim>\<open>JSON.parse\<close> on the history outputs used below, and \<open>sim_gt0\<close> answers as the
  comparison does on an object operand (which converts to NaN); the runs below never
  consult it, since the length they compare is always a number.
\<close>

record sim_world =
  script :: "proc_outcome list"
  disk :: "(string \<times> entry) list"
  secret :: "string option option"
  copy_error :: "string option"

definition sim_join :: "string \<Rightarrow> string \<Rightarrow> string" where
  "sim_join a b =
     (if a = [] then b
      else if last a = CHR ''/'' \<and> (b \<noteq> [] \<and> hd b = CHR ''/'') then a @ tl b
      else if last a \<noteq> CHR ''/'' \<and> \<not> (b \<noteq> [] \<and> hd b = CHR ''/'') then a @ ''/'' @ b
      else a @ b)"

definition sim_parse :: "string \<Rightarrow> string + jsval" where
  \<open>sim_parse s =
     (if s = ''[]'' then Inr (JArr [])
      else if s = ''[{"revision":"1"}]'' then Inr (JArr [JObj [(''revision'', JStr ''1'')]])
      else if s = ''[{"revision":"3"},{"revision":"2"},{"revision":"1"}]'' then
        Inr (JArr [JObj [(''revision'', JStr ''3'')], JObj [(''revision'', JStr ''2'')],
                   JObj [(''revision'', JStr ''1'')]])
      else Inl (''SyntaxError: Unexpected token in JSON ('' @ s @ '')''))\<close>

definition sim_gt0 :: "jsval \<Rightarrow> bool" where
  "sim_gt0 v = False"

definition sim_spawn :: "sim_world \<Rightarrow> invocation \<Rightarrow> proc_outcome \<times> sim_world" where
  "sim_spawn w iv =
     (let w1 = (case iv of
                  Shell c t r \<Rightarrow>
                    (if prefix ''helm dependencies update --skip-refresh '' c
                     then w\<lparr>disk := (drop 40 c @ ''requirements.lock'', File ''digest'') # disk w\<rparr>
                     else w)
                | Execa file args t r \<Rightarrow> w)
      in case script w1 of
           [] \<Rightarrow> (Exited 0 [] [], w1)
         | r # rs \<Rightarrow> (r, w1\<lparr>script := rs\<rparr>))"

definition sim_ncp :: "sim_world \<Rightarrow> string \<Rightarrow> string \<Rightarrow> js_error option \<times> sim_world" where
  "sim_ncp w src dest =
     (case copy_error w of
        Some e \<Rightarrow> (Some (External e), w)
      | None \<Rightarrow>
          (None, w\<lparr>disk := map (\<lambda>(p, e). (dest @ drop (length src) p, e))
                              (filter (\<lambda>(p, e). prefix src p) (disk w)) @ disk w\<rparr>))"

definition sim_mkdirp :: "sim_world \<Rightarrow> string \<Rightarrow> (js_error + unit) \<times> sim_world" where
  "sim_mkdirp w dir =
     (case map_of (disk w) dir of
        None \<Rightarrow> (Inr (), w\<lparr>disk := disk w @ [(dir, Dir)]\<rparr>)
      | Some e \<Rightarrow> (Inr (), w))"

definition sim_rt :: "sim_world runtime" where
  "sim_rt =
     \<lparr>path_join = sim_join,
      JSON_parse = sim_parse,
      coerce_gt0 = sim_gt0,
      spawn = sim_spawn,
      commandExists_sync = (\<lambda>w name. True),
      secretExist = (\<lambda>w name. (Inr (secret w \<noteq> None), w)),
      getSecret = (\<lambda>w name. (Inr (case secret w of None \<Rightarrow> None | Some v \<Rightarrow> v), w)),
      apiVersionExist = (\<lambda>w name. (Inr True, w)),
      readFileSync = (\<lambda>w p. case map_of (disk w) p of
                               Some (File c) \<Rightarrow> Inr c
                             | _ \<Rightarrow> Inl (External ''ENOENT'')),
      mkdirp = sim_mkdirp,
      ncp = sim_ncp,
      entry_at = (\<lambda>w p. map_of (disk w) p)\<rparr>"

text \<open>
  The configurations and starting states of the runs below: the default namespace and a
  namespace of another name, a templates tree of its own and one placed inside the cache.
\<close>

definition flags0 :: flags where
  "flags0 =
     \<lparr>tls = True, multiuser = True, templates = ''/opt/chectl/templates'',
      chenamespace = ''che'', domain = ''192.168.99.100.nip.io'',
      cheimage = ''eclipse/che-server:nightly'',
      devfile_registry_url = ''https://che-devfile-registry.openshift.io/'',
      plugin_registry_url = ''https://che-plugin-registry.openshift.io''\<rparr>"

definition flags1 :: flags where
  "flags1 = flags0\<lparr>tls := False, multiuser := False, chenamespace := ''dev''\<rparr>"


definition sim_disk0 :: "(string \<times> entry) list" where
  "sim_disk0 =
     [(''/opt/chectl/templates/kubernetes/helm/che/Chart.yaml'', File ''name: che''),
      (''/opt/chectl/templates/kubernetes/helm/che/tiller-rbac.yaml'', File ''kind: ClusterRole''),
      (''/cache/templates/kubernetes/helm/che/Chart.yaml'', File ''name: che'')]"

definition sim_state :: "proc_outcome list \<Rightarrow> sim_world state" where
  "sim_state outcomes =
     \<lparr>world = \<lparr>script = outcomes, disk = sim_disk0, secret = Some (Some ''admin@example.org''),
               copy_error = None\<rparr>,
      calls = [], ctx = Map.empty, uncaught = []\<rparr>"

section \<open>Resource-existence checks\<close>

lemma execa_no_reject:
  "reject iv = False \<Longrightarrow>
   execa rt iv s =
     (Inr (fst (spawn rt (world s) iv)),
      s\<lparr>world := snd (spawn rt (world s) iv), calls := calls s @ [Spawn iv]\<rparr>)"
  by (simp add: execa_def Let_def split: prod.splits)

text \<open>
  C7. Each of the three existence checks (cluster role binding, service account, service)
  resolves, whatever the read command does, with the boolean "the command's exit code is 0":
  true for exit code 0, false for every other outcome, and never an error.
\<close>

theorem existence_checks_total:
  "fst (tillerRoleBindingExist rt t s) =
     Inr (code (fst (spawn rt (world s) (Execa ''kubectl''
            [JStr ''get'', JStr ''clusterrolebinding'', JStr ''add-on-cluster-admin''] t False)))
          = CodeNum 0)
   \<and> fst (tillerServiceAccountExist rt t s) =
     Inr (code (fst (spawn rt (world s) (Execa ''kubectl''
            [JStr ''get'', JStr ''serviceaccounts'', JStr ''tiller'',
             JStr ''--namespace'', JStr ''kube-system''] t False)))
          = CodeNum 0)
   \<and> fst (tillerServiceExist rt t s) =
     Inr (code (fst (spawn rt (world s) (Execa ''kubectl''
            [JStr ''get'', JStr ''services'', JStr ''tiller-deploy'',
             JStr ''-n'', JStr ''kube-system''] t False)))
          = CodeNum 0)"
  by (simp add: tillerRoleBindingExist_def tillerServiceAccountExist_def tillerServiceExist_def
      andThen_def execa_no_reject ret_def)

section \<open>Failure recovery\<close>

lemma execa_eq:
  "spawn rt (world s) iv = (r, w') \<Longrightarrow>
   execa rt iv s =
     (if reject iv \<and> failed r then Inl (ExecaRejected iv r) else Inr r,
      s\<lparr>world := w', calls := calls s @ [Spawn iv]\<rparr>)"
  by (simp add: execa_def Let_def)

lemma andThen_Inr: "m s = (Inr x, s') \<Longrightarrow> andThen m f s = f x s'"
  by (simp add: andThen_def)

lemma andThen_Inl: "m s = (Inl e, s') \<Longrightarrow> andThen m f s = (Inl e, s')"
  by (simp add: andThen_def)

lemma upgrade_failed_first:
  assumes "cmd = upgradeCommand (ctx s) f (path_join rt cacheDir ''/templates/kubernetes/helm/che/'')"
    and "spawn rt (world s) (Shell cmd t False) = (r1, w1)"
    and "code r1 \<noteq> CodeNum 0"
  shows "upgradeCheHelmChart rt f cacheDir t s =
           recover rt f cmd (stderr r1) t (s\<lparr>world := w1, calls := calls s @ [Spawn (Shell cmd t False)]\<rparr>)"
  using assms by (simp add: upgradeCheHelmChart_def Let_def andThen_def execa_eq)


lemma recover_decided:
  assumes "spawn rt (world s) (Shell (historyCommand f) t False) = (h, w2)"
    and "code h = CodeNum 0"
    and "JSON_parse rt (stdout h) = Inr jsonOutput"
    and "js_elem0 jsonOutput = Inr first"
    and "js_revision first = Inr revision"
    and "js_length jsonOutput = Inr len"
  shows "recover rt f cmd err1 t s =
           andThen (if js_gt0 rt len \<and> revision = JStr ''1''
                    then purgeHelmChart rt (chenamespace f) 30000
                    else rollback rt f revision t)
             (\<lambda>u. andThen (execa rt (Shell cmd t True)) (\<lambda>r. ret ()))
             (s\<lparr>world := w2, calls := calls s @ [Spawn (Shell (historyCommand f) t False)]\<rparr>)"
  using assms
  by (simp add: recover_def andThen_def execa_eq lift_def ret_def)



text \<open>
  C4. Whenever the recovery reaches its remedy (the history query has exited 0, its output
  has parsed, and the reads on it have not thrown) and the remedy has completed (a purge
  always does, a rollback when it does not fail), the engine runs the original command line
  once more, with the same timeout, and nothing else: the calls of the whole function are
  the first attempt, the history query, the remedy and the second attempt. The function
  fails exactly when the second attempt fails (a timeout and a non-zero exit are failures),
  with the rejection of that attempt as its error.
\<close>

theorem retry_once:
  assumes "cmd = upgradeCommand (ctx s) f (path_join rt cacheDir ''/templates/kubernetes/helm/che/'')"
    and "spawn rt (world s) (Shell cmd t False) = (r1, w1)"
    and "code r1 \<noteq> CodeNum 0"
    and "spawn rt w1 (Shell (historyCommand f) t False) = (h, w2)"
    and "code h = CodeNum 0"
    and "JSON_parse rt (stdout h) = Inr jsonOutput"
    and "js_elem0 jsonOutput = Inr first"
    and "js_revision first = Inr revision"
    and "js_length jsonOutput = Inr len"
    and "purge = (js_gt0 rt len \<and> revision = JStr ''1'')"
    and "remedy = (if purge
                   then Execa ''helm'' [JStr ''delete'', JStr (chenamespace f), JStr ''--purge''] 30000 False
                   else Execa ''helm'' [JStr ''rollback'', JStr (chenamespace f), revision] t True)"
    and "spawn rt w2 remedy = (r3, w3)"
    and "\<not> purge \<longrightarrow> \<not> failed r3"
    and "spawn rt w3 (Shell cmd t True) = (r4, w4)"
  shows "upgradeCheHelmChart rt f cacheDir t s =
           (if failed r4 then Inl (ExecaRejected (Shell cmd t True) r4) else Inr (),
            s\<lparr>world := w4,
              calls := calls s @ [Spawn (Shell cmd t False),
                                  Spawn (Shell (historyCommand f) t False),
                                  Spawn remedy,
                                  Spawn (Shell cmd t True)]\<rparr>)
         \<and> (timedOut r4 \<longrightarrow> failed r4)
         \<and> (\<forall>n out err. r4 = Exited n out err \<and> n \<noteq> 0 \<longrightarrow> failed r4)"
proof -
  let ?s1 = "s\<lparr>world := w1, calls := calls s @ [Spawn (Shell cmd t False)]\<rparr>"
  have a: "spawn rt (world ?s1) (Shell (historyCommand f) t False) = (h, w2)"
    using assms(4) by simp
  note rec = recover_decided[OF a assms(5-9)]
  have t: "timedOut r4 \<longrightarrow> failed r4"
    by (cases r4) (simp_all add: failed_def)
  have main: "upgradeCheHelmChart rt f cacheDir t s =
           (if failed r4 then Inl (ExecaRejected (Shell cmd t True) r4) else Inr (),
            s\<lparr>world := w4,
              calls := calls s @ [Spawn (Shell cmd t False),
                                  Spawn (Shell (historyCommand f) t False),
                                  Spawn remedy,
                                  Spawn (Shell cmd t True)]\<rparr>)"
  proof (cases purge)
    case True
    with assms(11,12) have b: "spawn rt w2
        (Execa ''helm'' [JStr ''delete'', JStr (chenamespace f), JStr ''--purge''] 30000 False) = (r3, w3)"
      by simp
    from True assms(10) have c: "js_gt0 rt len \<and> revision = JStr ''1''" by simp
    show ?thesis
      unfolding upgrade_failed_first[OF assms(1-3)] rec if_P[OF c]
      using True b assms(11,14)
      by (simp add: purgeHelmChart_def andThen_def execa_eq ret_def)
  next
    case False
    with assms(11,12) have b: "spawn rt w2
        (Execa ''helm'' [JStr ''rollback'', JStr (chenamespace f), revision] t True) = (r3, w3)"
      by simp
    from False assms(10) have c: "\<not> (js_gt0 rt len \<and> revision = JStr ''1'')" by simp
    show ?thesis
      unfolding upgrade_failed_first[OF assms(1-3)] rec if_not_P[OF c]
      using False b assms(11,13,14)
      by (simp add: rollback_def andThen_def execa_eq ret_def)
  qed
  show ?thesis using main t by (simp add: failed_def)
qed

lemmas sim_defs = sim_rt_def sim_spawn_def sim_state_def sim_parse_def sim_join_def sim_disk0_def
  flags0_def flags1_def upgradeCommand_def historyCommand_def setOptions_def multiUserFlag_def tlsFlag_def tpl_def


text \<open>
  C2. The specification has the rollback command run with an absent revision on an empty
  history, with no earlier abort. The code reads \<^verbatim>\<open>jsonOutput[0].revision\<close>
  before it tests \<^verbatim>\<open>jsonOutput.length > 0\<close>: on the history \<^verbatim>\<open>[]\<close> that read throws
  a TypeError, and neither purge, rollback nor the second attempt is run.
\<close>

theorem empty_history_type_error:
  \<open>upgradeCheHelmChart sim_rt flags0 ''/cache'' 120000
      (sim_state [Exited 1 [] ''UPGRADE FAILED'', Exited 0 ''[]'' []]) =
     (Inl (TypeError ''Cannot read property 'revision' of undefined''),
      (sim_state [])\<lparr>calls := [Spawn (Shell (upgradeCommand Map.empty flags0
                                               ''/cache/templates/kubernetes/helm/che/'') 120000 False),
                                 Spawn (Shell ''helm history che --output json'' 120000 False)]\<rparr>)\<close>
  by (simp add: upgradeCheHelmChart_def recover_def andThen_def execa_def lift_def throw_def ret_def
      Let_def sim_defs)


text \<open>
  The theorem at two runs: a purge followed by a second attempt that exits 1, and a
  rollback followed by a second attempt that times out.
\<close>

theorem retry_once_witness:
  \<open>upgradeCheHelmChart sim_rt flags0 ''/cache'' 120000
      (sim_state [Exited 1 [] ''UPGRADE FAILED'', Exited 0 ''[{"revision":"1"}]'' [],
                  Exited 0 [] [], Exited 1 [] ''UPGRADE FAILED again'']) =
     (Inl (ExecaRejected
             (Shell (upgradeCommand Map.empty flags0 ''/cache/templates/kubernetes/helm/che/'')
                120000 True)
             (Exited 1 [] ''UPGRADE FAILED again'')),
      (sim_state [])\<lparr>calls :=
        [Spawn (Shell (upgradeCommand Map.empty flags0 ''/cache/templates/kubernetes/helm/che/'')
                  120000 False),
         Spawn (Shell ''helm history che --output json'' 120000 False),
         Spawn (Execa ''helm'' [JStr ''delete'', JStr ''che'', JStr ''--purge''] 30000 False),
         Spawn (Shell (upgradeCommand Map.empty flags0 ''/cache/templates/kubernetes/helm/che/'')
                  120000 True)]\<rparr>)
   \<and> upgradeCheHelmChart sim_rt flags0 ''/cache'' 120000
      (sim_state [Exited 1 [] ''UPGRADE FAILED'',
                  Exited 0 ''[{"revision":"3"},{"revision":"2"},{"revision":"1"}]'' [],
                  Exited 0 ''Rollback was a success.'' [], Killed True [] []]) =
     (Inl (ExecaRejected
             (Shell (upgradeCommand Map.empty flags0 ''/cache/templates/kubernetes/helm/che/'')
                120000 True)
             (Killed True [] [])),
      (sim_state [])\<lparr>calls :=
        [Spawn (Shell (upgradeCommand Map.empty flags0 ''/cache/templates/kubernetes/helm/che/'')
                  120000 False),
         Spawn (Shell ''helm history che --output json'' 120000 False),
         Spawn (Execa ''helm'' [JStr ''rollback'', JStr ''che'', JStr ''3''] 120000 True),
         Spawn (Shell (upgradeCommand Map.empty flags0 ''/cache/templates/kubernetes/helm/che/'')
                  120000 True)]\<rparr>)\<close>
  using retry_once[where rt = sim_rt and f = flags0 and cacheDir = "''/cache''"
          and t = 120000 and jsonOutput = "JArr [JObj [(''revision'', JStr ''1'')]]"
          and first = "JObj [(''revision'', JStr ''1'')]" and len = "JNum 1"
          and revision = "JStr ''1''"
          and s = \<open>sim_state [Exited 1 [] ''UPGRADE FAILED'', Exited 0 ''[{"revision":"1"}]'' [],
                  Exited 0 [] [], Exited 1 [] ''UPGRADE FAILED again'']\<close>,
          OF refl surjective_pairing _ surjective_pairing _ _ _ _ _ refl refl surjective_pairing _
             surjective_pairing]
        retry_once[where rt = sim_rt and f = flags0 and cacheDir = "''/cache''"
          and t = 120000
          and jsonOutput = "JArr [JObj [(''revision'', JStr ''3'')],
                                  JObj [(''revision'', JStr ''2'')], JObj [(''revision'', JStr ''1'')]]"
          and first = "JObj [(''revision'', JStr ''3'')]" and len = "JNum 3"
          and revision = "JStr ''3''"
          and s = \<open>sim_state [Exited 1 [] ''UPGRADE FAILED'',
                  Exited 0 ''[{"revision":"3"},{"revision":"2"},{"revision":"1"}]'' [],
                  Exited 0 ''Rollback was a success.'' [], Killed True [] []]\<close>,
          OF refl surjective_pairing _ surjective_pairing _ _ _ _ _ refl refl surjective_pairing _
             surjective_pairing]
  by (simp add: sim_defs failed_def js_gt0_def)

text \<open>
  C3. The first attempt installs the release named \<^verbatim>\<open>che\<close> whatever the configuration,
  while the history query, the rollback and the purge are given the namespace flag as
  release name. With the namespace \<^verbatim>\<open>dev\<close> the recovery queries and purges a release
  \<^verbatim>\<open>dev\<close>, not the release \<^verbatim>\<open>che\<close> whose upgrade failed.
\<close>

theorem recovery_names_namespace_not_release:
  \<open>calls (snd (upgradeCheHelmChart sim_rt flags1 ''/cache'' 120000
      (sim_state [Exited 1 [] ''UPGRADE FAILED'', Exited 0 ''[{"revision":"1"}]'' []]))) =
     [Spawn (Shell
        (''helm upgrade --install che --force --namespace dev''
         @ '' --set global.ingressDomain=192.168.99.100.nip.io ''
         @ '' --set cheImage=eclipse/che-server:nightly''
         @ '' --set global.cheWorkspacesNamespace=dev''
         @ '' --set che.workspace.devfileRegistryUrl=https://che-devfile-registry.openshift.io/''
         @ '' --set che.workspace.pluginRegistryUrl=https://che-plugin-registry.openshift.io''
         @ ''   /cache/templates/kubernetes/helm/che/'') 120000 False),
      Spawn (Shell ''helm history dev --output json'' 120000 False),
      Spawn (Execa ''helm'' [JStr ''delete'', JStr ''dev'', JStr ''--purge''] 30000 False),
      Spawn (Shell
        (''helm upgrade --install che --force --namespace dev''
         @ '' --set global.ingressDomain=192.168.99.100.nip.io ''
         @ '' --set cheImage=eclipse/che-server:nightly''
         @ '' --set global.cheWorkspacesNamespace=dev''
         @ '' --set che.workspace.devfileRegistryUrl=https://che-devfile-registry.openshift.io/''
         @ '' --set che.workspace.pluginRegistryUrl=https://che-plugin-registry.openshift.io''
         @ ''   /cache/templates/kubernetes/helm/che/'') 120000 True)]\<close>
  by (simp add: upgradeCheHelmChart_def recover_def andThen_def execa_def lift_def throw_def ret_def
      purgeHelmChart_def js_gt0_def Let_def sim_defs)

section \<open>The pipeline context\<close>

lemma keeps_ctx_andThen:
  "keeps_ctx m \<Longrightarrow> (\<And>x. keeps_ctx (f x)) \<Longrightarrow> keeps_ctx (andThen m f)"
  unfolding keeps_ctx_def andThen_def
  by (auto split: prod.splits sum.splits) (metis snd_conv)+

lemma keeps_ctx_ret: "keeps_ctx (ret x)"
  by (simp add: keeps_ctx_def ret_def)

lemma keeps_ctx_throw: "keeps_ctx (throw e)"
  by (simp add: keeps_ctx_def throw_def)

lemma keeps_ctx_if: "keeps_ctx a \<Longrightarrow> keeps_ctx b \<Longrightarrow> keeps_ctx (if c then a else b)"
  by simp

lemma keeps_ctx_lift: "keeps_ctx (lift r)"
  by (cases r) (simp_all add: lift_def keeps_ctx_ret keeps_ctx_throw)

lemma keeps_ctx_execa: "keeps_ctx (execa rt iv)"
  by (simp add: keeps_ctx_def execa_def Let_def split: prod.splits)

lemma keeps_ctx_kh:
  "keeps_ctx (kh_secretExist rt n)" "keeps_ctx (kh_getSecret rt n)" "keeps_ctx (kh_apiVersionExist rt n)"
  by (simp_all add: keeps_ctx_def kh_secretExist_def kh_getSecret_def kh_apiVersionExist_def
      split: prod.splits)

lemma keeps_ctx_disk:
  "keeps_ctx (mkdirp_call rt d)" "keeps_ctx (ncp_call rt a b cb)"
  by (simp_all add: keeps_ctx_def mkdirp_call_def ncp_call_def split: prod.splits)

lemma keeps_ctx_case_sum:
  "(\<And>e. keeps_ctx (f e)) \<Longrightarrow> (\<And>x. keeps_ctx (g x)) \<Longrightarrow>
   keeps_ctx (case r of Inl e \<Rightarrow> f e | Inr x \<Rightarrow> g x)"
  by (cases r) simp_all

lemmas keeps_ctx_intros = keeps_ctx_case_sum keeps_ctx_andThen keeps_ctx_ret keeps_ctx_throw keeps_ctx_if
  keeps_ctx_lift keeps_ctx_execa keeps_ctx_kh keeps_ctx_disk

lemma keeps_ctx_helmInstalled: "keeps_ctx (helmInstalledTask rt)"
  by (simp add: keeps_ctx_def helmInstalledTask_def Let_def)

lemma keeps_ctx_certManager: "keeps_ctx (certManagerTask rt)"
  unfolding certManagerTask_def by (intro keeps_ctx_intros)

lemma keeps_ctx_roleBinding: "keeps_ctx (roleBindingTask rt)"
  unfolding roleBindingTask_def tillerRoleBindingExist_def createTillerRoleBinding_def
  by (intro keeps_ctx_intros)

lemma keeps_ctx_serviceAccount: "keeps_ctx (serviceAccountTask rt)"
  unfolding serviceAccountTask_def tillerServiceAccountExist_def createTillerServiceAccount_def
  by (intro keeps_ctx_intros)

lemma keeps_ctx_RBAC: "keeps_ctx (createTillerRBAC rt p t)"
  by (auto simp: keeps_ctx_def createTillerRBAC_def Let_def andThen_def execa_def ret_def
      split: sum.splits prod.splits)

lemma keeps_ctx_tillerService: "keeps_ctx (tillerServiceTask rt)"
  unfolding tillerServiceTask_def tillerServiceExist_def createTillerService_def
  by (intro keeps_ctx_intros)

lemma keeps_ctx_prepare: "keeps_ctx (prepareCheHelmChart rt f c)"
  unfolding prepareCheHelmChart_def Let_def by (intro keeps_ctx_intros)

lemma keeps_ctx_updateDeps: "keeps_ctx (updateCheHelmChartDependencies rt c t)"
  unfolding updateCheHelmChartDependencies_def Let_def by (intro keeps_ctx_intros)

lemma keeps_ctx_recover: "keeps_ctx (recover rt f c e t)"
  unfolding recover_def purgeHelmChart_def rollback_def
  by (intro keeps_ctx_intros)

lemma keeps_ctx_upgrade: "keeps_ctx (upgradeCheHelmChart rt f c t)"
proof -
  have "keeps_ctx (andThen (execa rt (Shell cmd t False))
           (\<lambda>r. if code r \<noteq> CodeNum 0 then recover rt f cmd (stderr r) t else ret ()))" for cmd
    by (intro keeps_ctx_intros keeps_ctx_recover)
  then show ?thesis
    by (simp add: keeps_ctx_def upgradeCheHelmChart_def Let_def)
qed


lemma keeps_imp_writes: "keeps_ctx m \<Longrightarrow> writes_at_most_tlsEmail m"
  by (simp add: keeps_ctx_def writes_at_most_tlsEmail_def)

lemma writes_tlsSecretTask: "writes_at_most_tlsEmail (tlsSecretTask rt)"
  by (auto simp: writes_at_most_tlsEmail_def tlsSecretTask_def andThen_def kh_secretExist_def
      kh_getSecret_def set_ctx_def throw_def split: prod.splits sum.splits option.splits)


lemma listr_run_writes:
  "(\<forall>t \<in> set ts. writes_at_most_tlsEmail (task t)) \<Longrightarrow> writes_at_most_tlsEmail (listr_run ts)"
proof (induction ts)
  case Nil
  show ?case by (simp add: writes_at_most_tlsEmail_def)
next
  case (Cons t ts)
  then have t: "\<And>s. ctx (snd (task t s)) = ctx s \<or> (\<exists>e. ctx (snd (task t s)) = (ctx s)(''tlsEmail'' \<mapsto> e))"
    and r: "\<And>s. ctx (snd (listr_run ts s)) = ctx s
               \<or> (\<exists>e. ctx (snd (listr_run ts s)) = (ctx s)(''tlsEmail'' \<mapsto> e))"
    by (simp_all add: writes_at_most_tlsEmail_def)
  show ?case
    unfolding writes_at_most_tlsEmail_def
  proof
    fix s
    obtain res s' where e: "task t s = (res, s')" by (cases "task t s")
    from t[of s] e have a: "ctx s' = ctx s \<or> (\<exists>e. ctx s' = (ctx s)(''tlsEmail'' \<mapsto> e))" by simp
    from r[of s'] a
    have b: "ctx (snd (listr_run ts s')) = ctx s
               \<or> (\<exists>e. ctx (snd (listr_run ts s')) = (ctx s)(''tlsEmail'' \<mapsto> e))"
      by auto
    from e a b r[of s]
    show "ctx (snd (listr_run (t # ts) s)) = ctx s
            \<or> (\<exists>e. ctx (snd (listr_run (t # ts) s)) = (ctx s)(''tlsEmail'' \<mapsto> e))"
      by (cases res) simp_all
  qed
qed

lemma tasks_keep_ctx:
  "t \<in> set (startTasks rt f cacheDir) \<Longrightarrow> title t \<noteq> ''Check for TLS secret prerequisites'' \<Longrightarrow>
   keeps_ctx (task t)"
  by (auto simp: startTasks_def keeps_ctx_helmInstalled keeps_ctx_certManager keeps_ctx_roleBinding
      keeps_ctx_serviceAccount keeps_ctx_RBAC keeps_ctx_tillerService keeps_ctx_prepare
      keeps_ctx_updateDeps keeps_ctx_upgrade)

lemma tasks_write_at_most:
  "t \<in> set (startTasks rt f cacheDir) \<Longrightarrow> writes_at_most_tlsEmail (task t)"
proof (cases "title t = ''Check for TLS secret prerequisites''")
  case True
  assume "t \<in> set (startTasks rt f cacheDir)"
  with True have "task t = tlsSecretTask rt"
    by (auto simp: startTasks_def)
  then show ?thesis by (simp add: writes_tlsSecretTask)
next
  case False
  assume "t \<in> set (startTasks rt f cacheDir)"
  from keeps_imp_writes[OF tasks_keep_ctx[OF this False]] show ?thesis .
qed

text \<open>
  C10. Across a pipeline run the shared context is written by the TLS-secret step alone, and
  that step writes at most the key \<^verbatim>\<open>tlsEmail\<close>: every task of the pipeline other
  than "Check for TLS secret prerequisites" leaves the context exactly as it received it,
  whatever its outcome, and the context after the whole run is the initial one, possibly
  with \<^verbatim>\<open>tlsEmail\<close> set.
\<close>

theorem context_written_only_by_tls_step:
  "(\<forall>t \<in> set (startTasks rt f cacheDir).
      title t \<noteq> ''Check for TLS secret prerequisites'' \<longrightarrow> keeps_ctx (task t))
   \<and> (\<forall>t \<in> set (startTasks rt f cacheDir).
      title t = ''Check for TLS secret prerequisites'' \<longrightarrow> writes_at_most_tlsEmail (task t))
   \<and> writes_at_most_tlsEmail (listr_run (startTasks rt f cacheDir))"
  using tasks_keep_ctx[of _ rt f cacheDir] tasks_write_at_most[of _ rt f cacheDir]
    listr_run_writes[of "startTasks rt f cacheDir"]
  by blast


section \<open>Composition of the upgrade command\<close>















section \<open>Staging and the source tree\<close>











section \<open>Runs of the simulated pipeline\<close>

lemmas model_defs = startTasks_def helmInstalledTask_def tlsSecretTask_def certManagerTask_def
  roleBindingTask_def serviceAccountTask_def tillerServiceTask_def createTillerRBAC_def
  tillerRoleBindingExist_def tillerServiceAccountExist_def tillerServiceExist_def
  prepareCheHelmChart_def updateCheHelmChartDependencies_def upgradeCheHelmChart_def
  kh_secretExist_def kh_getSecret_def kh_apiVersionExist_def set_ctx_def mkdirp_call_def ncp_call_def
  andThen_def execa_def ret_def throw_def failed_def Let_def sim_mkdirp_def sim_ncp_def


lemma sim_pipeline_run:
  "fst (listr_run (startTasks sim_rt flags0 ''/cache'') (sim_state [])) = Inr ()
   \<and> ctx (snd (listr_run (startTasks sim_rt flags0 ''/cache'') (sim_state []))) =
       [''tlsEmail'' \<mapsto> ''admin@example.org'']"
  by (simp add: model_defs sim_defs)



text \<open>
  C9. The specification has a failed copy make \<^verbatim>\<open>prepareCheHelmChart\<close> fail. The code
  awaits the callback form of \<^verbatim>\<open>ncp\<close>, which returns no promise, and throws the copy
  error inside the callback: when the copy fails, the function still completes
  successfully, and the error is an uncaught exception outside it.
\<close>

theorem copy_error_not_propagated:
  "fst (prepareCheHelmChart sim_rt flags0 ''/cache''
          ((sim_state [])\<lparr>world := (world (sim_state []))\<lparr>copy_error := Some ''ENOENT''\<rparr>\<rparr>)) = Inr ()
   \<and> uncaught (snd (prepareCheHelmChart sim_rt flags0 ''/cache''
          ((sim_state [])\<lparr>world := (world (sim_state []))\<lparr>copy_error := Some ''ENOENT''\<rparr>\<rparr>))) =
       [External ''ENOENT'']
   \<and> calls (snd (prepareCheHelmChart sim_rt flags0 ''/cache''
          ((sim_state [])\<lparr>world := (world (sim_state []))\<lparr>copy_error := Some ''ENOENT''\<rparr>\<rparr>))) =
       [Mkdirp ''/cache/templates/kubernetes/helm/che/'',
        Ncp ''/opt/chectl/templates/kubernetes/helm/che/'' ''/cache/templates/kubernetes/helm/che/'']"
  by (simp add: model_defs sim_defs)

text \<open>
  The theorem at the simulated pipeline with TLS: the deployment task keeps the context, the
  TLS-secret task writes at most the email, and the run ends with exactly the email in the
  context.
\<close>

theorem context_written_only_by_tls_step_witness:
  "keeps_ctx (upgradeCheHelmChart sim_rt flags0 ''/cache'' 120000)
   \<and> writes_at_most_tlsEmail (tlsSecretTask sim_rt)
   \<and> ctx (snd (listr_run (startTasks sim_rt flags0 ''/cache'') (sim_state []))) =
       [''tlsEmail'' \<mapsto> ''admin@example.org'']"
proof -
  note th = context_written_only_by_tls_step[of sim_rt flags0 "''/cache''"]
  have a: "\<lparr>title = ''Deploying Che Helm Chart'', enabled = True,
            task = upgradeCheHelmChart sim_rt flags0 ''/cache'' 120000\<rparr>
           \<in> set (startTasks sim_rt flags0 ''/cache'')"
    by (simp add: startTasks_def)
  have b: "\<lparr>title = ''Check for TLS secret prerequisites'', enabled = tls flags0,
            task = tlsSecretTask sim_rt\<rparr>
           \<in> set (startTasks sim_rt flags0 ''/cache'')"
    by (simp add: startTasks_def)
  from th[THEN conjunct1, rule_format, OF a] th[THEN conjunct2, THEN conjunct1, rule_format, OF b]
    sim_pipeline_run
  show ?thesis by simp
qed


end
